theory Spec2Isabelle
  imports Main "HOL-Library.Word" "HOL-Library.Sublist"
begin

unbundle bit_operations_syntax

section \<open>Bytes and strings\<close>

text \<open>
  A Go \<open>string\<close> is a sequence of bytes; it is modelled by \<open>string\<close> (a list of 8-bit
  characters). \<open>ord c\<close> is the numeric value of the byte \<open>c\<close>, used where the Go code
  compares bytes (\<open>'0' <= c && c <= '9'\<close>). Go's \<open>int\<close> values are \<open>int\<close>; lengths and
  indices, which are never negative, are \<open>nat\<close>.
\<close>

type_synonym byte = "8 word"

definition ord :: "char \<Rightarrow> int" where
  "ord c = of_char c"

definition is_digit :: "char \<Rightarrow> bool" where
  "is_digit c = (ord CHR ''0'' \<le> ord c \<and> ord c \<le> ord CHR ''9'')"

definition is_lower_af :: "char \<Rightarrow> bool" where
  "is_lower_af c = (ord CHR ''a'' \<le> ord c \<and> ord c \<le> ord CHR ''f'')"

definition is_upper_AF :: "char \<Rightarrow> bool" where
  "is_upper_AF c = (ord CHR ''A'' \<le> ord c \<and> ord c \<le> ord CHR ''F'')"

section \<open>Package net of the Go standard library: addresses and networks\<close>

text \<open>
  \<open>net.IP\<close> and \<open>net.IPMask\<close> are byte slices (of length 4 or 16 when well formed);
  \<open>net.IPNet\<close> is a struct of the two. The functions below follow \<open>net/ip.go\<close> and
  \<open>net/parse.go\<close>: \<open>dtoi\<close>, \<open>xtoi\<close>, \<open>parseIPv4\<close>, \<open>parseIPv6\<close>, \<open>ParseIP\<close>,
  \<open>CIDRMask\<close>, \<open>IP.To4\<close>, \<open>IP.Mask\<close>, \<open>ParseCIDR\<close>, \<open>networkNumberAndMask\<close> and
  \<open>IPNet.Contains\<close>. A \<open>nil\<close> slice is the empty list (Go's \<open>len(nil) = 0\<close>); where Go
  tests \<open>== nil\<close> on the result of a parser the model returns \<open>None\<close>.
\<close>

type_synonym net_IP = "byte list"
type_synonym net_IPMask = "byte list"

record IPNet =
  IP :: net_IP
  Mask :: net_IPMask

definition IPv4len :: nat where "IPv4len = 4"
definition IPv6len :: nat where "IPv6len = 16"

definition big :: int where "big = 0xFFFFFF"

text \<open>\<open>dtoi\<close>: decimal to integer; returns the number, the characters consumed, success.\<close>

fun dtoi_loop :: "string \<Rightarrow> int \<Rightarrow> nat \<Rightarrow> int \<times> nat \<times> bool" where
  "dtoi_loop [] n i = (if i = 0 then (0, 0, False) else (n, i, True))"
| "dtoi_loop (c # cs) n i =
     (if is_digit c then
        (let n' = n * 10 + (ord c - ord CHR ''0'')
         in if n' \<ge> big then (big, i, False) else dtoi_loop cs n' (i + 1))
      else if i = 0 then (0, 0, False) else (n, i, True))"

definition dtoi :: "string \<Rightarrow> int \<times> nat \<times> bool" where
  "dtoi s = dtoi_loop s 0 0"

text \<open>\<open>xtoi\<close>: hexadecimal to integer; returns the number, the characters consumed, success.\<close>

definition hex_digit :: "char \<Rightarrow> int option" where
  "hex_digit c =
     (if is_digit c then Some (ord c - ord CHR ''0'')
      else if is_lower_af c then Some (ord c - ord CHR ''a'' + 10)
      else if is_upper_AF c then Some (ord c - ord CHR ''A'' + 10)
      else None)"

fun xtoi_loop :: "string \<Rightarrow> int \<Rightarrow> nat \<Rightarrow> int \<times> nat \<times> bool" where
  "xtoi_loop [] n i = (if i = 0 then (0, i, False) else (n, i, True))"
| "xtoi_loop (c # cs) n i =
     (case hex_digit c of
        None \<Rightarrow> (if i = 0 then (0, i, False) else (n, i, True))
      | Some d \<Rightarrow>
          (let n' = n * 16 + d
           in if n' \<ge> big then (0, i, False) else xtoi_loop cs n' (i + 1)))"

definition xtoi :: "string \<Rightarrow> int \<times> nat \<times> bool" where
  "xtoi s = xtoi_loop s 0 0"

definition v4InV6Prefix :: "byte list" where
  "v4InV6Prefix = [0, 0, 0, 0, 0, 0, 0, 0, 0, 0, 0xff, 0xff]"

text \<open>\<open>net.IPv4(a, b, c, d)\<close>: the 16-byte form of an IPv4 address.\<close>

definition IPv4 :: "byte \<Rightarrow> byte \<Rightarrow> byte \<Rightarrow> byte \<Rightarrow> net_IP" where
  "IPv4 a b c d = v4InV6Prefix @ [a, b, c, d]"

text \<open>
  \<open>parseIPv4\<close>: four decimal octets separated by dots; the loop runs over the octet
  index, here counted down by the first argument; the flag says whether the octet is the
  first one (no dot before it).
\<close>

fun parseIPv4_loop :: "nat \<Rightarrow> bool \<Rightarrow> string \<Rightarrow> (byte list \<times> string) option" where
  "parseIPv4_loop 0 first s = Some ([], s)"
| "parseIPv4_loop (Suc k) first s =
     (if s = [] then None
      else
        (case (if first then Some s
               else if hd s \<noteq> CHR ''.'' then None else Some (tl s)) of
           None \<Rightarrow> None
         | Some s1 \<Rightarrow>
             (case dtoi s1 of (n, c, ok) \<Rightarrow>
                if \<not> ok \<or> n > 0xFF then None
                else if c > 1 \<and> hd s1 = CHR ''0'' then None
                else
                  (case parseIPv4_loop k False (drop c s1) of
                     None \<Rightarrow> None
                   | Some (p, rest) \<Rightarrow> Some (word_of_int n # p, rest)))))"

definition parseIPv4 :: "string \<Rightarrow> net_IP option" where
  "parseIPv4 s =
     (case parseIPv4_loop IPv4len True s of
        Some ([a, b, c, d], []) \<Rightarrow> Some (IPv4 a b c d)
      | _ \<Rightarrow> None)"

text \<open>
  \<open>parseIPv6\<close>: \<open>ip\<close> holds the \<open>i = length ip\<close> bytes written so far, \<open>ellipsis\<close> the
  position of \<open>::\<close> if one was seen. Every round of the Go loop \<open>for i < IPv6len\<close> writes
  two or four bytes, so eight rounds suffice; the first argument counts them down. The
  result of the loop is the bytes, the ellipsis and the rest of the string.
\<close>

fun parseIPv6_loop ::
  "nat \<Rightarrow> byte list \<Rightarrow> nat option \<Rightarrow> string \<Rightarrow> (byte list \<times> nat option \<times> string) option" where
  "parseIPv6_loop 0 ip ellipsis s = Some (ip, ellipsis, s)"
| "parseIPv6_loop (Suc k) ip ellipsis s =
     (if \<not> length ip < IPv6len then Some (ip, ellipsis, s)
      else
        (case xtoi s of (n, c, ok) \<Rightarrow>
           if \<not> ok \<or> n > 0xFFFF then None
           else if c < length s \<and> s ! c = CHR ''.'' then
             (if ellipsis = None \<and> length ip \<noteq> IPv6len - IPv4len then None
              else if length ip + IPv4len > IPv6len then None
              else
                (case parseIPv4 s of
                   None \<Rightarrow> None
                 | Some ip4 \<Rightarrow> Some (ip @ drop 12 ip4, ellipsis, [])))
           else
             (let ip' = ip @ [word_of_int (n div 256), word_of_int n];
                  s1 = drop c s
              in if s1 = [] then Some (ip', ellipsis, s1)
                 else if hd s1 \<noteq> CHR '':'' \<or> length s1 = 1 then None
                 else
                   (let s2 = tl s1
                    in if hd s2 = CHR '':'' then
                         (if ellipsis \<noteq> None then None
                          else
                            (let s3 = tl s2
                             in if s3 = [] then Some (ip', Some (length ip'), s3)
                                else parseIPv6_loop k ip' (Some (length ip')) s3))
                       else parseIPv6_loop k ip' ellipsis s2))))"

definition parseIPv6 :: "string \<Rightarrow> net_IP option" where
  "parseIPv6 s0 =
     (let lead = (length s0 \<ge> 2 \<and> s0 ! 0 = CHR '':'' \<and> s0 ! 1 = CHR '':'');
          ellipsis0 = (if lead then Some 0 else None);
          s = (if lead then drop 2 s0 else s0)
      in if lead \<and> s = [] then Some (replicate IPv6len 0)
         else
           (case parseIPv6_loop 8 [] ellipsis0 s of
              None \<Rightarrow> None
            | Some (ip, ellipsis, rest) \<Rightarrow>
                if rest \<noteq> [] then None
                else if length ip < IPv6len then
                  (case ellipsis of
                     None \<Rightarrow> None
                   | Some e \<Rightarrow> Some (take e ip @ replicate (IPv6len - length ip) 0 @ drop e ip))
                else if ellipsis \<noteq> None then None
                else Some ip))"

text \<open>\<open>net.ParseIP\<close>: the first dot or colon decides between the two parsers.\<close>

fun ParseIP_loop :: "string \<Rightarrow> string \<Rightarrow> net_IP option" where
  "ParseIP_loop s [] = None"
| "ParseIP_loop s (c # cs) =
     (if c = CHR ''.'' then parseIPv4 s
      else if c = CHR '':'' then parseIPv6 s
      else ParseIP_loop s cs)"

definition ParseIP :: "string \<Rightarrow> net_IP option" where
  "ParseIP s = ParseIP_loop s s"

text \<open>\<open>net.CIDRMask(ones, bits)\<close>: \<open>ones\<close> one-bits followed by zero-bits.\<close>

fun CIDRMask_loop :: "nat \<Rightarrow> nat \<Rightarrow> byte list" where
  "CIDRMask_loop 0 n = []"
| "CIDRMask_loop (Suc l) n =
     (if n \<ge> 8 then 0xff # CIDRMask_loop l (n - 8)
      else NOT (drop_bit n (0xff :: byte)) # CIDRMask_loop l 0)"

definition CIDRMask :: "nat \<Rightarrow> nat \<Rightarrow> net_IPMask option" where
  "CIDRMask ones bits =
     (if bits \<noteq> 8 * IPv4len \<and> bits \<noteq> 8 * IPv6len then None
      else if ones > bits then None
      else Some (CIDRMask_loop (bits div 8) ones))"

text \<open>\<open>IP.To4\<close>: the 4-byte form of an IPv4 address, \<open>nil\<close> (here \<open>None\<close>) otherwise.\<close>

definition To4 :: "net_IP \<Rightarrow> net_IP option" where
  "To4 ip =
     (if length ip = IPv4len then Some ip
      else if length ip = IPv6len \<and> take 10 ip = replicate 10 0
              \<and> ip ! 10 = 0xff \<and> ip ! 11 = 0xff then Some (drop 12 ip)
      else None)"

text \<open>\<open>IP.Mask(mask)\<close>; \<open>nil\<close> (here \<open>[]\<close>) when the lengths do not fit.\<close>

definition IP_Mask :: "net_IP \<Rightarrow> net_IPMask \<Rightarrow> net_IP" where
  "IP_Mask ip0 mask0 =
     (let mask = (if length mask0 = IPv6len \<and> length ip0 = IPv4len
                     \<and> take 12 mask0 = replicate 12 0xff then drop 12 mask0 else mask0);
          ip = (if length mask = IPv4len \<and> length ip0 = IPv6len
                   \<and> take 12 ip0 = v4InV6Prefix then drop 12 ip0 else ip0)
      in if length ip \<noteq> length mask then []
         else map (\<lambda>(a, b). a AND b) (zip ip mask))"

text \<open>
  \<open>net.ParseCIDR\<close>, the value of the \<open>*IPNet\<close> it returns (\<open>None\<close> for its error).
\<close>

fun IndexByteString :: "string \<Rightarrow> char \<Rightarrow> nat option" where
  "IndexByteString [] c = None"
| "IndexByteString (x # xs) c =
     (if x = c then Some 0 else map_option Suc (IndexByteString xs c))"

definition ParseCIDR_value :: "string \<Rightarrow> IPNet option" where
  "ParseCIDR_value s =
     (case IndexByteString s CHR ''/'' of
        None \<Rightarrow> None
      | Some i \<Rightarrow>
          (let addr = take i s; mask = drop (i + 1) s;
               ip4 = parseIPv4 addr;
               iplen = (if ip4 = None then IPv6len else IPv4len);
               ip = (if ip4 = None then parseIPv6 addr else ip4)
           in case dtoi mask of (n, j, ok) \<Rightarrow>
                (case ip of
                   None \<Rightarrow> None
                 | Some ipv \<Rightarrow>
                     if \<not> ok \<or> j \<noteq> length mask \<or> n < 0 \<or> n > int (8 * iplen) then None
                     else
                       (case CIDRMask (nat n) (8 * iplen) of
                          None \<Rightarrow> None
                        | Some m \<Rightarrow> Some \<lparr>IP = IP_Mask ipv m, Mask = m\<rparr>))))"

text \<open>\<open>networkNumberAndMask\<close>; \<open>(nil, nil)\<close> is \<open>([], [])\<close>.\<close>

definition networkNumberAndMask :: "IPNet \<Rightarrow> net_IP \<times> net_IPMask" where
  "networkNumberAndMask n =
     (case (case To4 (IP n) of
              Some ip4 \<Rightarrow> Some ip4
            | None \<Rightarrow> if length (IP n) \<noteq> IPv6len then None else Some (IP n)) of
        None \<Rightarrow> ([], [])
      | Some ip \<Rightarrow>
          if length (Mask n) = IPv4len then
            (if length ip \<noteq> IPv4len then ([], []) else (ip, Mask n))
          else if length (Mask n) = IPv6len then
            (if length ip = IPv4len then (ip, drop 12 (Mask n)) else (ip, Mask n))
          else ([], []))"

text \<open>\<open>IPNet.Contains\<close>: the loop compares the masked bytes one by one.\<close>

definition IPNet_Contains :: "IPNet \<Rightarrow> net_IP \<Rightarrow> bool" where
  "IPNet_Contains n ip0 =
     (case networkNumberAndMask n of (nn, m) \<Rightarrow>
        (let ip = (case To4 ip0 of Some x \<Rightarrow> x | None \<Rightarrow> ip0)
         in if length ip \<noteq> length nn then False
            else list_all (\<lambda>i. nn ! i AND m ! i = ip ! i AND m ! i) [0 ..< length ip]))"

section \<open>The private address block list\<close>

text \<open>
  \<open>var privateIPBlocks []*net.IPNet\<close> is a slice of pointers, and
  \<open>removeLocalhostFromPrivateIPBlock\<close> compares pointers. The model therefore keeps the
  \<open>IPNet\<close> objects in a store: a pointer is \<open>None\<close> (Go's \<open>nil\<close>) or the index of an
  object in the list \<open>heap\<close> of the objects allocated so far, and \<open>net.ParseCIDR\<close>
  allocates a new object each time it succeeds.
\<close>

type_synonym IPNet_ptr = "nat option"

record globals =
  heap :: "IPNet list"
  privateIPBlocks :: "IPNet_ptr list"

datatype panic = NilPointerDereference | SliceBoundsOutOfRange

definition deref :: "IPNet list \<Rightarrow> IPNet_ptr \<Rightarrow> IPNet option" where
  "deref h p = (case p of None \<Rightarrow> None | Some a \<Rightarrow> if a < length h then Some (h ! a) else None)"

text \<open>
  \<open>_, block, _ := net.ParseCIDR(cidr)\<close>: the returned pointer (\<open>nil\<close> on a parse error)
  and the store after the allocation.
\<close>

definition ParseCIDR :: "string \<Rightarrow> IPNet list \<Rightarrow> IPNet_ptr \<times> IPNet list" where
  "ParseCIDR s h =
     (case ParseCIDR_value s of
        None \<Rightarrow> (None, h)
      | Some n \<Rightarrow> (Some (length h), h @ [n]))"

text \<open>The table of \<open>func init()\<close>, in the order of the source.\<close>

definition cidr_table :: "string list" where
  "cidr_table =
     [''127.0.0.0/8'',
      ''10.0.0.0/8'',
      ''100.64.0.0/10'',
      ''172.16.0.0/12'',
      ''192.0.0.0/24'',
      ''192.168.0.0/16'',
      ''169.254.0.0/16'',
      ''::1/128'',
      ''fe80::/10'',
      ''fc00::/7'']"

fun init_loop :: "string list \<Rightarrow> globals \<Rightarrow> globals" where
  "init_loop [] g = g"
| "init_loop (cidr # rest) g =
     (case ParseCIDR cidr (heap g) of
        (block, h') \<Rightarrow>
          init_loop rest (g\<lparr>heap := h', privateIPBlocks := privateIPBlocks g @ [block]\<rparr>))"

definition init :: globals where
  "init = init_loop cidr_table \<lparr>heap = [], privateIPBlocks = []\<rparr>"

text \<open>
  \<open>isPrivateIP\<close>: the first block that contains the address answers \<open>true\<close>. Calling
  \<open>Contains\<close> on a \<open>nil\<close> block dereferences it, which panics in Go.
\<close>

fun isPrivateIP_loop :: "IPNet list \<Rightarrow> IPNet_ptr list \<Rightarrow> net_IP \<Rightarrow> panic + bool" where
  "isPrivateIP_loop h [] ip = Inr False"
| "isPrivateIP_loop h (block # blocks) ip =
     (case deref h block of
        None \<Rightarrow> Inl NilPointerDereference
      | Some n \<Rightarrow> if IPNet_Contains n ip then Inr True else isPrivateIP_loop h blocks ip)"

definition isPrivateIP :: "globals \<Rightarrow> net_IP \<Rightarrow> panic + bool" where
  "isPrivateIP g ip = isPrivateIP_loop (heap g) (privateIPBlocks g) ip"

text \<open>
  \<open>removeLocalhostFromPrivateIPBlock\<close>. The loop compares each element of the slice with
  the pointer \<open>ParseCIDR\<close> has just returned and keeps the last index that matched,
  starting from \<open>localhostIndex = 0\<close>; then the element at that index is cut out.
  \<open>privateIPBlocks[localhostIndex+1:]\<close> panics when the slice is empty.
\<close>

fun localhostIndex_loop :: "IPNet_ptr list \<Rightarrow> IPNet_ptr \<Rightarrow> nat \<Rightarrow> nat \<Rightarrow> nat" where
  "localhostIndex_loop [] localhost i localhostIndex = localhostIndex"
| "localhostIndex_loop (b # bs) localhost i localhostIndex =
     localhostIndex_loop bs localhost (i + 1) (if b = localhost then i else localhostIndex)"

definition removeLocalhostFromPrivateIPBlock :: "globals \<Rightarrow> panic + (IPNet_ptr \<times> globals)" where
  "removeLocalhostFromPrivateIPBlock g =
     (case ParseCIDR ''127.0.0.0/8'' (heap g) of
        (localhost, h') \<Rightarrow>
          (let localhostIndex = localhostIndex_loop (privateIPBlocks g) localhost 0 0
           in if localhostIndex + 1 > length (privateIPBlocks g) then Inl SliceBoundsOutOfRange
              else Inr (localhost,
                        g\<lparr>heap := h',
                          privateIPBlocks :=
                            take localhostIndex (privateIPBlocks g)
                            @ drop (localhostIndex + 1) (privateIPBlocks g)\<rparr>)))"

definition unshiftPrivateIPBlock :: "IPNet_ptr \<Rightarrow> globals \<Rightarrow> globals" where
  "unshiftPrivateIPBlock address g = g\<lparr>privateIPBlocks := address # privateIPBlocks g\<rparr>"

section \<open>Errors\<close>

text \<open>
  Go errors are values. \<open>ErrorsNew m\<close> is \<open>errors.New(m)\<close>. \<open>HTTPError code m cause\<close> is the
  API's \<open>*HTTPError\<close>: \<open>badRequestError\<close> builds one with code 400,
  \<open>unprocessableEntityError\<close> with code 422, \<open>internalServerError\<close> with code 500, and
  \<open>WithInternalError\<close> stores the cause. \<open>UserNotFoundError\<close> is the error of the models
  package for a missing user, and \<open>StorageError m\<close> any error of the storage engine, with
  its text.
\<close>

datatype error =
    ErrorsNew string
  | HTTPError int string "error option"
  | UserNotFoundError
  | StorageError string

definition badRequestError :: "string \<Rightarrow> error" where
  "badRequestError m = HTTPError 400 m None"

definition unprocessableEntityError :: "string \<Rightarrow> error" where
  "unprocessableEntityError m = HTTPError 422 m None"

definition internalServerError :: "string \<Rightarrow> error" where
  "internalServerError m = HTTPError 500 m None"

fun WithInternalError :: "error \<Rightarrow> error \<Rightarrow> error" where
  "WithInternalError (HTTPError code m cause) err = HTTPError code m (Some err)"
| "WithInternalError e err = e"

section \<open>User identifiers (library gofrs/uuid)\<close>

text \<open>
  A \<open>uuid.UUID\<close> is an array of 16 bytes. \<open>uuid.FromString\<close> accepts the canonical form
  (36 characters, dashes at 8, 13, 18 and 23), the form without dashes (32), both in
  braces (38, 34) and both after \<open>urn:uuid:\<close> (45, 41); \<open>UUID.String\<close> writes the
  canonical form in lower case.
\<close>

type_synonym UUID = "byte list"

fun hex_Decode :: "string \<Rightarrow> byte list option" where
  "hex_Decode [] = Some []"
| "hex_Decode [a] = None"
| "hex_Decode (a # b # rest) =
     (case (hex_digit a, hex_digit b) of
        (Some x, Some y) \<Rightarrow> map_option (\<lambda>bs. word_of_int (x * 16 + y) # bs) (hex_Decode rest)
      | _ \<Rightarrow> None)"

definition byteGroups :: "nat list" where
  "byteGroups = [8, 4, 4, 4, 12]"

fun decodeCanonical_loop :: "nat list \<Rightarrow> bool \<Rightarrow> string \<Rightarrow> byte list option" where
  "decodeCanonical_loop [] first src = Some []"
| "decodeCanonical_loop (byteGroup # gs) first src =
     (let src1 = (if first then src else tl src)
      in case hex_Decode (take byteGroup src1) of
           None \<Rightarrow> None
         | Some bs \<Rightarrow>
             map_option (\<lambda>r. bs @ r) (decodeCanonical_loop gs False (drop byteGroup src1)))"

definition decodeCanonical :: "string \<Rightarrow> UUID option" where
  "decodeCanonical t =
     (if t ! 8 \<noteq> CHR ''-'' \<or> t ! 13 \<noteq> CHR ''-'' \<or> t ! 18 \<noteq> CHR ''-'' \<or> t ! 23 \<noteq> CHR ''-''
      then None
      else decodeCanonical_loop byteGroups True t)"

definition decodePlain :: "string \<Rightarrow> UUID option" where
  "decodePlain t =
     (if length t = 32 then hex_Decode t
      else if length t = 36 then decodeCanonical t
      else None)"

definition uuid_FromString :: "string \<Rightarrow> UUID option" where
  "uuid_FromString t =
     (if length t = 32 then hex_Decode t
      else if length t = 34 \<or> length t = 38 then
        (if hd t \<noteq> CHR ''{'' \<or> last t \<noteq> CHR ''}'' then None
         else decodePlain (butlast (tl t)))
      else if length t = 36 then decodeCanonical t
      else if length t = 41 \<or> length t = 45 then
        (if take 9 t \<noteq> ''urn:uuid:'' then None else decodePlain (drop 9 t))
      else None)"

definition hextable :: string where
  "hextable = ''0123456789abcdef''"

definition hex_EncodeToString :: "byte list \<Rightarrow> string" where
  "hex_EncodeToString bs =
     concat (map (\<lambda>b. [hextable ! unat (drop_bit 4 b), hextable ! unat (b AND 0x0f)]) bs)"

definition uuid_String :: "UUID \<Rightarrow> string" where
  "uuid_String u =
     hex_EncodeToString (take 4 u) @ ''-'' @ hex_EncodeToString (take 2 (drop 4 u)) @ ''-''
     @ hex_EncodeToString (take 2 (drop 6 u)) @ ''-'' @ hex_EncodeToString (take 2 (drop 8 u))
     @ ''-'' @ hex_EncodeToString (drop 10 u)"

definition uuid_Nil :: UUID where
  "uuid_Nil = replicate 16 0"

section \<open>Users, claims, configuration and the request context\<close>

text \<open>
  The structs of the packages \<open>models\<close> and \<open>conf\<close> with the fields the API code reads and
  writes. A metadata map is a \<open>map[string]interface{}\<close>: \<open>None\<close> is the \<open>nil\<close> map, and its
  values are JSON values. A \<open>time.Time\<close> is a number of nanoseconds, a \<open>time.Duration\<close>
  too; \<open>*time.Time\<close> is an option.
\<close>

datatype json = JNull | JBool bool | JNumber int | JString string | JArray "json list"
  | JObject "(string \<times> json) list"

type_synonym JSONMap = "(string \<times> json) list option"
type_synonym Time = int
type_synonym Duration = int

record User =
  InstanceID :: UUID
  ID :: UUID
  Aud :: string
  Role :: string
  Email :: string
  Phone :: string
  EncryptedPassword :: string
  EmailConfirmedAt :: "Time option"
  PhoneConfirmedAt :: "Time option"
  AppMetaData :: JSONMap
  UserMetaData :: JSONMap
  IsSuperAdmin :: bool
  BannedUntil :: "Time option"

record GoTrueClaims =
  Subject :: string
  Audience :: string

text \<open>
  \<open>glob.Glob\<close> is an interface with the one method \<open>Match(string) bool\<close>; a value of it
  is its \<open>Match\<close> function. \<open>URIAllowListMap\<close> is a Go map from the configured URI to its
  compiled glob: an association list with distinct keys, in any order.
\<close>

type_synonym Glob = "string \<Rightarrow> bool"

record Configuration =
  SiteURL :: string
  URIAllowListMap :: "(string \<times> Glob) list"
  JWT_Aud :: string
  JWT_AdminGroupName :: string
  JWT_DefaultGroupName :: string
  PasswordMinLength :: int

text \<open>
  The values a request's \<open>context.Context\<close> carries, read by \<open>getClaims\<close>,
  \<open>getInstanceID\<close>, \<open>getUser\<close>, \<open>getAdminUser\<close> and \<open>getConfig\<close>. \<open>getClaims\<close> returns
  \<open>nil\<close> when the request has no token.
\<close>

record ctx_values =
  getClaims :: "GoTrueClaims option"
  getInstanceID :: UUID
  getUser :: User
  getAdminUser :: User
  getConfig :: Configuration

text \<open>
  The storage connection: the table of users, the audit log, and two components that
  describe the storage engine rather than its data. \<open>attempted\<close> lists the write
  operations the code has asked for so far, the failed ones included. \<open>failures\<close> says
  how the engine answers the coming write operations, one entry each in order (\<open>True\<close>:
  the operation fails); once the list is used up every operation succeeds.
\<close>

datatype AuditAction = UserSignedUpAction | UserModifiedAction | UserDeletedAction

record AuditLogEntry =
  entry_InstanceID :: UUID
  entry_actor_id :: UUID
  entry_action :: AuditAction
  entry_user_id :: UUID
  entry_user_email :: string
  entry_user_phone :: string

datatype storage_op =
    OpCreateAuditLogEntry AuditAction
  | OpUpdateOnly string
  | OpCreateUser
  | OpDestroyUser

record Connection =
  users :: "User list"
  audit_log_entries :: "AuditLogEntry list"
  attempted :: "storage_op list"
  failures :: "bool list"

text \<open>
  Modelled from the spec: \<open>models.HasRole\<close>, \<open>models.SystemUserID\<close>,
  \<open>models.SystemUserUUID\<close>, \<open>models.NewSystemUser\<close> and
  \<open>models.FindUserByInstanceIDAndID\<close> are not among the source files. A user holds a
  role when it is the user's role; the system-user sentinel is the nil UUID (or the
  identifier \<open>0\<close>); the synthetic system user is scoped to the tenant partition and the
  audience given; the lookup finds the user of the tenant with the identifier, and fails
  with the not-found error if there is none.
\<close>

definition HasRole :: "User \<Rightarrow> string \<Rightarrow> bool" where
  "HasRole u roleName = (Role u = roleName)"

definition SystemUserID :: string where
  "SystemUserID = ''0''"

definition SystemUserUUID :: UUID where
  "SystemUserUUID = uuid_Nil"

definition zero_User :: User where
  "zero_User =
     \<lparr>InstanceID = uuid_Nil, ID = uuid_Nil, Aud = [], Role = [], Email = [], Phone = [],
      EncryptedPassword = [], EmailConfirmedAt = None, PhoneConfirmedAt = None,
      AppMetaData = None, UserMetaData = None, IsSuperAdmin = False, BannedUntil = None\<rparr>"

definition NewSystemUser :: "UUID \<Rightarrow> string \<Rightarrow> User" where
  "NewSystemUser instanceID aud =
     zero_User\<lparr>InstanceID := instanceID, ID := SystemUserUUID, Aud := aud\<rparr>"

definition FindUserByInstanceIDAndID :: "Connection \<Rightarrow> UUID \<Rightarrow> UUID \<Rightarrow> error + User" where
  "FindUserByInstanceIDAndID conn instanceID userID =
     (case find (\<lambda>u. InstanceID u = instanceID \<and> ID u = userID) (users conn) of
        None \<Rightarrow> Inl UserNotFoundError
      | Some u \<Rightarrow> Inr u)"

section \<open>Claim and authorization resolver (helpers)\<close>

text \<open>\<open>getUserFromClaims\<close>; \<open>ctx\<close> supplies the claims and the instance identifier.\<close>

definition getUserFromClaims :: "ctx_values \<Rightarrow> Connection \<Rightarrow> error + User" where
  "getUserFromClaims ctx conn =
     (case getClaims ctx of
        None \<Rightarrow> Inl (ErrorsNew ''Invalid token'')
      | Some claims \<Rightarrow>
          if Subject claims = [] then Inl (ErrorsNew ''Invalid claim: id'')
          else
            (let instanceID = getInstanceID ctx
             in if Subject claims = uuid_String SystemUserUUID \<or> Subject claims = SystemUserID
                then Inr (NewSystemUser instanceID (Audience claims))
                else
                  (case uuid_FromString (Subject claims) of
                     None \<Rightarrow> Inl (ErrorsNew ''Invalid user ID'')
                   | Some userID \<Rightarrow> FindUserByInstanceIDAndID conn instanceID userID)))"

text \<open>\<open>isAdmin\<close>; \<open>config\<close> is \<open>a.getConfig(ctx)\<close>.\<close>

definition isAdmin :: "Configuration \<Rightarrow> User \<Rightarrow> string \<Rightarrow> bool" where
  "isAdmin config u aud0 =
     (let aud = (if aud0 = [] then JWT_Aud config else aud0)
      in IsSuperAdmin u \<or> (aud = Aud u \<and> HasRole u (JWT_AdminGroupName config)))"

text \<open>\<open>requestAud\<close>; \<open>header_aud\<close> is \<open>r.Header.Get(audHeaderName)\<close>.\<close>

definition requestAud :: "ctx_values \<Rightarrow> string \<Rightarrow> string" where
  "requestAud ctx header_aud =
     (if header_aud \<noteq> [] then header_aud
      else
        (case getClaims ctx of
           Some claims \<Rightarrow> if Audience claims \<noteq> [] then Audience claims else JWT_Aud (getConfig ctx)
         | None \<Rightarrow> JWT_Aud (getConfig ctx)))"

section \<open>Package net/url of the Go standard library\<close>

text \<open>
  A model of \<open>url.Parse\<close>, \<open>URL.String\<close> and \<open>URL.Hostname\<close> as of Go 1.17, function
  by function: \<open>getScheme\<close>, \<open>split\<close>, \<open>shouldEscape\<close>, \<open>unescape\<close>, \<open>escape\<close>,
  \<open>validEncoded\<close>, \<open>validOptionalPort\<close>, \<open>validUserinfo\<close>, \<open>parseHost\<close>,
  \<open>parseAuthority\<close>, \<open>setPath\<close>, \<open>setFragment\<close>, \<open>parse\<close>, \<open>Parse\<close>, \<open>EscapedPath\<close>,
  \<open>EscapedFragment\<close>, \<open>splitHostPort\<close>. A \<open>*Userinfo\<close> is an option. An error of the
  package is a value of \<open>url_error\<close> with its text.
\<close>

record Userinfo =
  username :: string
  password :: string
  passwordSet :: bool

record URL =
  Scheme :: string
  Opaque :: string
  URL_User :: "Userinfo option"
  Host :: string
  Path :: string
  RawPath :: string
  ForceQuery :: bool
  RawQuery :: string
  Fragment :: string
  RawFragment :: string

datatype url_error = EscapeError string | InvalidHostError string | url_errors_New string

datatype encoding = encodePath | encodePathSegment | encodeHost | encodeZone
  | encodeUserPassword | encodeQueryComponent | encodeFragment

definition is_lower :: "char \<Rightarrow> bool" where
  "is_lower c = (ord CHR ''a'' \<le> ord c \<and> ord c \<le> ord CHR ''z'')"

definition is_upper :: "char \<Rightarrow> bool" where
  "is_upper c = (ord CHR ''A'' \<le> ord c \<and> ord c \<le> ord CHR ''Z'')"

definition ishex :: "char \<Rightarrow> bool" where
  "ishex c = (is_digit c \<or> is_lower_af c \<or> is_upper_AF c)"

definition unhex :: "char \<Rightarrow> int" where
  "unhex c = (case hex_digit c of Some d \<Rightarrow> d | None \<Rightarrow> 0)"

definition HasPrefix :: "string \<Rightarrow> string \<Rightarrow> bool" where
  "HasPrefix s pre = (take (length pre) s = pre)"

definition HasSuffix :: "string \<Rightarrow> string \<Rightarrow> bool" where
  "HasSuffix s suf = (length suf \<le> length s \<and> drop (length s - length suf) s = suf)"

definition TrimSuffix :: "string \<Rightarrow> string \<Rightarrow> string" where
  "TrimSuffix s suf = (if HasSuffix s suf then take (length s - length suf) s else s)"

definition LastIndexByte :: "string \<Rightarrow> char \<Rightarrow> nat option" where
  "LastIndexByte s c =
     (case IndexByteString (rev s) c of None \<Rightarrow> None | Some j \<Rightarrow> Some (length s - 1 - j))"

definition ToLower :: "string \<Rightarrow> string" where
  "ToLower s = map (\<lambda>c. if is_upper c then char_of (ord c + 32) else c) s"

text \<open>\<open>split(s, sep, cutc)\<close>: cut \<open>s\<close> at the first \<open>sep\<close>, dropping it when \<open>cutc\<close>.\<close>

definition split :: "string \<Rightarrow> char \<Rightarrow> bool \<Rightarrow> string \<times> string" where
  "split s sep cutc =
     (case IndexByteString s sep of
        None \<Rightarrow> (s, [])
      | Some i \<Rightarrow> if cutc then (take i s, drop (i + 1) s) else (take i s, drop i s))"

definition stringContainsCTLByte :: "string \<Rightarrow> bool" where
  "stringContainsCTLByte s = list_ex (\<lambda>b. ord b < ord CHR '' '' \<or> ord b = 0x7f) s"

text \<open>
  \<open>getScheme\<close>: the loop runs over the index \<open>i\<close>; the third argument is \<open>rawURL[i:]\<close>.
\<close>

fun getScheme_loop :: "string \<Rightarrow> nat \<Rightarrow> string \<Rightarrow> url_error + (string \<times> string)" where
  "getScheme_loop rawURL i [] = Inr ([], rawURL)"
| "getScheme_loop rawURL i (c # cs) =
     (if is_lower c \<or> is_upper c then getScheme_loop rawURL (i + 1) cs
      else if is_digit c \<or> c = CHR ''+'' \<or> c = CHR ''-'' \<or> c = CHR ''.'' then
        (if i = 0 then Inr ([], rawURL) else getScheme_loop rawURL (i + 1) cs)
      else if c = CHR '':'' then
        (if i = 0 then Inl (url_errors_New ''missing protocol scheme'')
         else Inr (take i rawURL, drop (i + 1) rawURL))
      else Inr ([], rawURL))"

definition getScheme :: "string \<Rightarrow> url_error + (string \<times> string)" where
  "getScheme rawURL = getScheme_loop rawURL 0 rawURL"

definition shouldEscape :: "char \<Rightarrow> encoding \<Rightarrow> bool" where
  "shouldEscape c mode =
     (if is_lower c \<or> is_upper c \<or> is_digit c then False
      else if (mode = encodeHost \<or> mode = encodeZone)
              \<and> c \<in> set (''!$&()*+,;=:[]<>'' @ [CHR 0x27, CHR 0x22]) then False
      else if c \<in> set ''-_.~'' then False
      else if c \<in> set ''$&+,/:;=?@'' then
        (case mode of
           encodePath \<Rightarrow> c = CHR ''?''
         | encodePathSegment \<Rightarrow> c = CHR ''/'' \<or> c = CHR '';'' \<or> c = CHR '','' \<or> c = CHR ''?''
         | encodeUserPassword \<Rightarrow> c = CHR ''@'' \<or> c = CHR ''/'' \<or> c = CHR ''?'' \<or> c = CHR '':''
         | encodeQueryComponent \<Rightarrow> True
         | encodeFragment \<Rightarrow> False
         | _ \<Rightarrow> True)
      else if mode = encodeFragment \<and> c \<in> set ''!()*'' then False
      else True)"

text \<open>
  \<open>unescape\<close>: the first loop checks the string (\<open>unescape_check\<close>, \<open>None\<close> when it is
  well formed), the second decodes it.
\<close>

fun unescape_check :: "string \<Rightarrow> encoding \<Rightarrow> url_error option" where
  "unescape_check [] mode = None"
| "unescape_check (c # cs) mode =
     (if c = CHR ''%'' then
        (case cs of
           a # b # rest \<Rightarrow>
             if \<not> ishex a \<or> \<not> ishex b then Some (EscapeError [c, a, b])
             else if mode = encodeHost \<and> unhex a < 8 \<and> [c, a, b] \<noteq> ''%25''
               then Some (EscapeError [c, a, b])
             else if mode = encodeZone \<and> [c, a, b] \<noteq> ''%25''
                     \<and> unhex a * 16 + unhex b \<noteq> ord CHR '' ''
                     \<and> shouldEscape (char_of (unhex a * 16 + unhex b)) encodeHost
               then Some (EscapeError [c, a, b])
             else unescape_check rest mode
         | _ \<Rightarrow> Some (EscapeError (c # cs)))
      else if c = CHR ''+'' then unescape_check cs mode
      else if (mode = encodeHost \<or> mode = encodeZone) \<and> ord c < 0x80
              \<and> shouldEscape c encodeHost then Some (InvalidHostError [c])
      else unescape_check cs mode)"

fun unescape_decode :: "string \<Rightarrow> encoding \<Rightarrow> string" where
  "unescape_decode [] mode = []"
| "unescape_decode (c # cs) mode =
     (if c = CHR ''%'' then
        (case cs of
           a # b # rest \<Rightarrow> char_of (unhex a * 16 + unhex b) # unescape_decode rest mode
         | _ \<Rightarrow> c # cs)
      else if c = CHR ''+'' then
        (if mode = encodeQueryComponent then CHR '' '' else CHR ''+'') # unescape_decode cs mode
      else c # unescape_decode cs mode)"

definition unescape :: "string \<Rightarrow> encoding \<Rightarrow> url_error + string" where
  "unescape s mode =
     (case unescape_check s mode of
        Some e \<Rightarrow> Inl e
      | None \<Rightarrow> Inr (unescape_decode s mode))"

definition upperhex :: string where
  "upperhex = ''0123456789ABCDEF''"

definition escape :: "string \<Rightarrow> encoding \<Rightarrow> string" where
  "escape s mode =
     concat (map (\<lambda>c. if c = CHR '' '' \<and> mode = encodeQueryComponent then ''+''
                       else if shouldEscape c mode then
                         [CHR ''%'', upperhex ! nat (ord c div 16), upperhex ! nat (ord c mod 16)]
                       else [c]) s)"

definition validEncoded :: "string \<Rightarrow> encoding \<Rightarrow> bool" where
  "validEncoded s mode =
     list_all (\<lambda>c. c \<in> set (''!$&()*+,;=:@[]%'' @ [CHR 0x27]) \<or> \<not> shouldEscape c mode) s"

definition validOptionalPort :: "string \<Rightarrow> bool" where
  "validOptionalPort port =
     (if port = [] then True
      else if hd port \<noteq> CHR '':'' then False
      else list_all is_digit (tl port))"

definition validUserinfo :: "string \<Rightarrow> bool" where
  "validUserinfo s =
     list_all (\<lambda>r. is_upper r \<or> is_lower r \<or> is_digit r
                    \<or> r \<in> set (''-._:~!$&()*+,;=%@'' @ [CHR 0x27])) s"

text \<open>\<open>strings.Index(host, "%25")\<close>, for the zone of an IPv6 literal.\<close>

fun Index_25 :: "string \<Rightarrow> nat option" where
  "Index_25 [] = None"
| "Index_25 (c # cs) =
     (if take 3 (c # cs) = ''%25'' then Some 0 else map_option Suc (Index_25 cs))"

definition parseHost :: "string \<Rightarrow> url_error + string" where
  "parseHost host =
     (let generic = unescape host encodeHost
      in if HasPrefix host ''['' then
           (case LastIndexByte host CHR '']'' of
              None \<Rightarrow> Inl (url_errors_New ''missing ] in host'')
            | Some i \<Rightarrow>
                if \<not> validOptionalPort (drop (i + 1) host)
                then Inl (url_errors_New ''invalid port after host'')
                else
                  (case Index_25 (take i host) of
                     None \<Rightarrow> generic
                   | Some zone \<Rightarrow>
                       (case unescape (take zone host) encodeHost of
                          Inl e \<Rightarrow> Inl e
                        | Inr host1 \<Rightarrow>
                            (case unescape (drop zone (take i host)) encodeZone of
                               Inl e \<Rightarrow> Inl e
                             | Inr host2 \<Rightarrow>
                                 (case unescape (drop i host) encodeHost of
                                    Inl e \<Rightarrow> Inl e
                                  | Inr host3 \<Rightarrow> Inr (host1 @ host2 @ host3))))))
         else
           (case LastIndexByte host CHR '':'' of
              None \<Rightarrow> generic
            | Some i \<Rightarrow>
                if \<not> validOptionalPort (drop i host)
                then Inl (url_errors_New ''invalid port after host'')
                else generic))"

definition parseAuthority :: "string \<Rightarrow> url_error + (Userinfo option \<times> string)" where
  "parseAuthority authority =
     (case LastIndexByte authority CHR ''@'' of
        None \<Rightarrow>
          (case parseHost authority of Inl e \<Rightarrow> Inl e | Inr host \<Rightarrow> Inr (None, host))
      | Some i \<Rightarrow>
          (case parseHost (drop (i + 1) authority) of
             Inl e \<Rightarrow> Inl e
           | Inr host \<Rightarrow>
               (let userinfo = take i authority
                in if \<not> validUserinfo userinfo then Inl (url_errors_New ''net/url: invalid userinfo'')
                   else if CHR '':'' \<notin> set userinfo then
                     (case unescape userinfo encodeUserPassword of
                        Inl e \<Rightarrow> Inl e
                      | Inr u \<Rightarrow>
                          Inr (Some \<lparr>username = u, password = [], passwordSet = False\<rparr>, host))
                   else
                     (case split userinfo CHR '':'' True of
                        (username0, password0) \<Rightarrow>
                          (case unescape username0 encodeUserPassword of
                             Inl e \<Rightarrow> Inl e
                           | Inr u \<Rightarrow>
                               (case unescape password0 encodeUserPassword of
                                  Inl e \<Rightarrow> Inl e
                                | Inr pw \<Rightarrow>
                                    Inr (Some \<lparr>username = u, password = pw, passwordSet = True\<rparr>,
                                         host)))))))"

definition setPath :: "URL \<Rightarrow> string \<Rightarrow> url_error + URL" where
  "setPath u p =
     (case unescape p encodePath of
        Inl e \<Rightarrow> Inl e
      | Inr path \<Rightarrow>
          Inr (u\<lparr>Path := path, RawPath := (if p = escape path encodePath then [] else p)\<rparr>))"

definition setFragment :: "URL \<Rightarrow> string \<Rightarrow> url_error + URL" where
  "setFragment u f =
     (case unescape f encodeFragment of
        Inl e \<Rightarrow> Inl e
      | Inr frag \<Rightarrow>
          Inr (u\<lparr>Fragment := frag,
                 RawFragment := (if f = escape frag encodeFragment then [] else f)\<rparr>))"

definition new_URL :: URL where
  "new_URL =
     \<lparr>Scheme = [], Opaque = [], URL_User = None, Host = [], Path = [], RawPath = [],
      ForceQuery = False, RawQuery = [], Fragment = [], RawFragment = []\<rparr>"

text \<open>\<open>parse(rawURL, viaRequest)\<close> with \<open>viaRequest = false\<close>, as \<open>Parse\<close> calls it.\<close>

definition parse :: "string \<Rightarrow> url_error + URL" where
  "parse rawURL =
     (if stringContainsCTLByte rawURL
      then Inl (url_errors_New ''net/url: invalid control character in URL'')
      else if rawURL = ''*'' then Inr (new_URL\<lparr>Path := ''*''\<rparr>)
      else
        (case getScheme rawURL of
           Inl e \<Rightarrow> Inl e
         | Inr (scheme0, rest0) \<Rightarrow>
             (let url1 = new_URL\<lparr>Scheme := ToLower scheme0\<rparr>;
                  force = (HasSuffix rest0 ''?'' \<and> count_list rest0 CHR ''?'' = 1);
                  rest1 = (if force then butlast rest0 else fst (split rest0 CHR ''?'' True));
                  url2 = (if force then url1\<lparr>ForceQuery := True\<rparr>
                          else url1\<lparr>RawQuery := snd (split rest0 CHR ''?'' True)\<rparr>)
              in if \<not> HasPrefix rest1 ''/'' \<and> Scheme url2 \<noteq> [] then Inr (url2\<lparr>Opaque := rest1\<rparr>)
                 else if \<not> HasPrefix rest1 ''/''
                         \<and> (case IndexByteString rest1 CHR '':'' of
                               None \<Rightarrow> False
                             | Some colon \<Rightarrow>
                                 (case IndexByteString rest1 CHR ''/'' of
                                    None \<Rightarrow> True
                                  | Some slash \<Rightarrow> colon < slash))
                   then Inl (url_errors_New ''first path segment in URL cannot contain colon'')
                 else if (Scheme url2 \<noteq> [] \<or> \<not> HasPrefix rest1 ''///'') \<and> HasPrefix rest1 ''//''
                   then
                     (case split (drop 2 rest1) CHR ''/'' False of
                        (authority, rest2) \<Rightarrow>
                          (case parseAuthority authority of
                             Inl e \<Rightarrow> Inl e
                           | Inr (user, host) \<Rightarrow>
                               setPath (url2\<lparr>URL_User := user, Host := host\<rparr>) rest2))
                 else setPath url2 rest1)))"

definition url_Parse :: "string \<Rightarrow> url_error + URL" where
  "url_Parse rawURL =
     (case split rawURL CHR ''#'' True of
        (u, frag) \<Rightarrow>
          (case parse u of
             Inl e \<Rightarrow> Inl e
           | Inr url \<Rightarrow> if frag = [] then Inr url else setFragment url frag))"

definition EscapedPath :: "URL \<Rightarrow> string" where
  "EscapedPath u =
     (if RawPath u \<noteq> [] \<and> validEncoded (RawPath u) encodePath
         \<and> unescape (RawPath u) encodePath = Inr (Path u) then RawPath u
      else if Path u = ''*'' then ''*''
      else escape (Path u) encodePath)"

definition EscapedFragment :: "URL \<Rightarrow> string" where
  "EscapedFragment u =
     (if RawFragment u \<noteq> [] \<and> validEncoded (RawFragment u) encodeFragment
         \<and> unescape (RawFragment u) encodeFragment = Inr (Fragment u) then RawFragment u
      else escape (Fragment u) encodeFragment)"

definition Userinfo_String :: "Userinfo \<Rightarrow> string" where
  "Userinfo_String ui =
     escape (username ui) encodeUserPassword
     @ (if passwordSet ui then '':'' @ escape (password ui) encodeUserPassword else [])"

text \<open>\<open>URL.String\<close>; \<open>buf\<close> is the text before the path.\<close>

definition URL_String :: "URL \<Rightarrow> string" where
  "URL_String u =
     (let buf0 = (if Scheme u \<noteq> [] then Scheme u @ '':'' else []);
          body =
            (if Opaque u \<noteq> [] then buf0 @ Opaque u
             else
               (let buf1 =
                      (if Scheme u \<noteq> [] \<or> Host u \<noteq> [] \<or> URL_User u \<noteq> None then
                         buf0
                         @ (if Host u \<noteq> [] \<or> Path u \<noteq> [] \<or> URL_User u \<noteq> None then ''//'' else [])
                         @ (case URL_User u of None \<Rightarrow> [] | Some ui \<Rightarrow> Userinfo_String ui @ ''@'')
                         @ (if Host u \<noteq> [] then escape (Host u) encodeHost else [])
                       else buf0);
                    path = EscapedPath u;
                    buf2 = (if path \<noteq> [] \<and> hd path \<noteq> CHR ''/'' \<and> Host u \<noteq> []
                            then buf1 @ ''/'' else buf1);
                    buf3 = (if buf2 = []
                               \<and> (case IndexByteString path CHR '':'' of
                                     None \<Rightarrow> False
                                   | Some i \<Rightarrow> IndexByteString (take i path) CHR ''/'' = None)
                            then ''./'' else buf2)
                in buf3 @ path))
      in body
         @ (if ForceQuery u \<or> RawQuery u \<noteq> [] then ''?'' @ RawQuery u else [])
         @ (if Fragment u \<noteq> [] then ''#'' @ EscapedFragment u else []))"

definition splitHostPort :: "string \<Rightarrow> string \<times> string" where
  "splitHostPort hostPort =
     (case (case LastIndexByte hostPort CHR '':'' of
              None \<Rightarrow> (hostPort, [])
            | Some colon \<Rightarrow>
                if validOptionalPort (drop colon hostPort)
                then (take colon hostPort, drop (colon + 1) hostPort)
                else (hostPort, [])) of
        (host, port) \<Rightarrow>
          if HasPrefix host ''['' \<and> HasSuffix host '']'' then (butlast (tl host), port)
          else (host, port))"

definition URL_Hostname :: "URL \<Rightarrow> string" where
  "URL_Hostname u = fst (splitHostPort (Host u))"

section \<open>Redirect resolver (helpers)\<close>

text \<open>
  An \<open>*http.Request\<close> as far as the helpers read it: \<open>Header_Get\<close> is \<open>r.Header.Get\<close>,
  \<open>ParseForm\<close> the outcome of \<open>r.ParseForm()\<close>, which is an error or the form with its
  \<open>Get\<close> function, and \<open>Referer\<close> the referrer header.
\<close>

record http_Request =
  Header_Get :: "string \<Rightarrow> string"
  ParseForm :: "string + (string \<Rightarrow> string)"
  Referer :: string

definition getRedirectTo :: "http_Request \<Rightarrow> string" where
  "getRedirectTo r =
     (let reqref = Header_Get r ''redirect_to''
      in if reqref \<noteq> [] then reqref
         else
           (case ParseForm r of
              Inl err \<Rightarrow> reqref
            | Inr form_Get \<Rightarrow> form_Get ''redirect_to''))"

text \<open>
  \<open>parseURL\<close>: \<open>url.Parse\<close>, then for the schemes \<open>https\<close> and \<open>http\<close> the assignment
  \<open>parsed.Path = strings.TrimSuffix(parsed.Path, "/")\<close>, here \<open>trimPath\<close>.
\<close>

definition trimPath :: "URL \<Rightarrow> URL" where
  "trimPath parsed =
     (if Scheme parsed = ''https'' \<or> Scheme parsed = ''http''
      then parsed\<lparr>Path := TrimSuffix (Path parsed) ''/''\<rparr>
      else parsed)"

definition parseURL :: "string \<Rightarrow> url_error + URL" where
  "parseURL u =
     (case url_Parse u of
        Inl err \<Rightarrow> Inl err
      | Inr parsed \<Rightarrow> Inr (trimPath parsed))"

text \<open>
  \<open>isRedirectURLValid\<close>. After \<open>refurl, rerr := parseURL(redirectURL)\<close> the code
  evaluates \<open>refurl.String()\<close> at once; when \<open>rerr\<close> is not \<open>nil\<close>, \<open>refurl\<close> is \<open>nil\<close> and
  the method dereferences it: the function panics. \<open>base\<close> is only read behind
  \<open>berr == nil\<close>. The loop over \<open>URIAllowListMap\<close> returns \<open>true\<close> at the first entry that
  accepts the URL.
\<close>

fun allowList_loop :: "(string \<times> Glob) list \<Rightarrow> string \<Rightarrow> string \<Rightarrow> bool" where
  "allowList_loop [] matchURL redirectURL = False"
| "allowList_loop ((uri, g) # rest) matchURL redirectURL =
     (if HasPrefix uri ''http'' \<or> HasPrefix uri ''https'' then
        (if g matchURL then True else allowList_loop rest matchURL redirectURL)
      else if redirectURL = uri then True
      else allowList_loop rest matchURL redirectURL)"

definition isRedirectURLValid :: "Configuration \<Rightarrow> string \<Rightarrow> panic + bool" where
  "isRedirectURLValid config redirectURL =
     (if redirectURL = [] then Inr False
      else
        (let base = parseURL (SiteURL config);
             refurl = parseURL redirectURL
         in case refurl of
              Inl rerr \<Rightarrow> Inl NilPointerDereference
            | Inr ref \<Rightarrow>
                (let matchURL = URL_String ref
                 in if (case base of
                          Inl berr \<Rightarrow> False
                        | Inr b \<Rightarrow> URL_Hostname b = URL_Hostname ref)
                    then Inr True
                    else Inr (allowList_loop (URIAllowListMap config) matchURL redirectURL))))"

text \<open>\<open>getReferrer\<close> and \<open>getRedirectURLOrReferrer\<close>; \<open>config\<close> is \<open>a.getConfig(ctx)\<close>.\<close>

definition getReferrer :: "Configuration \<Rightarrow> http_Request \<Rightarrow> panic + string" where
  "getReferrer config r =
     (let reqref = getRedirectTo r
      in case isRedirectURLValid config reqref of
           Inl p \<Rightarrow> Inl p
         | Inr True \<Rightarrow> Inr reqref
         | Inr False \<Rightarrow>
             (let reqref2 = Referer r
              in case isRedirectURLValid config reqref2 of
                   Inl p \<Rightarrow> Inl p
                 | Inr True \<Rightarrow> Inr reqref2
                 | Inr False \<Rightarrow> Inr (SiteURL config)))"

definition getRedirectURLOrReferrer :: "Configuration \<Rightarrow> http_Request \<Rightarrow> string \<Rightarrow> panic + string" where
  "getRedirectURLOrReferrer config r reqref =
     (case isRedirectURLValid config reqref of
        Inl p \<Rightarrow> Inl p
      | Inr True \<Rightarrow> Inr reqref
      | Inr False \<Rightarrow> getReferrer config r)"

text \<open>
  The glob compiled from a pattern without metacharacters matches the pattern's text
  and nothing else (library gobwas/glob).
\<close>

definition literal_glob :: "string \<Rightarrow> Glob" where
  "literal_glob pattern = (\<lambda>s. s = pattern)"

section \<open>Sample values\<close>

text \<open>Concrete users, claims, configurations and connections, used to instantiate theorems.\<close>

definition sample_config :: Configuration where
  "sample_config =
     \<lparr>SiteURL = ''https://trusted.example'', URIAllowListMap = [],
      JWT_Aud = ''authenticated'', JWT_AdminGroupName = ''supabase_admin'',
      JWT_DefaultGroupName = ''authenticated'', PasswordMinLength = 6\<rparr>"

definition sample_instance :: UUID where
  "sample_instance = [0, 0, 0, 0, 0, 0, 0, 0, 0, 0, 0, 0, 0, 0, 0, 7]"

definition alice_id :: UUID where
  "alice_id = [0x6b, 0xa7, 0xb8, 0x10, 0x9d, 0xad, 0x11, 0xd1, 0x80, 0xb4, 0, 0xc0, 0x4f, 0xd4, 0x30, 0xc8]"

definition alice :: User where
  "alice =
     zero_User\<lparr>InstanceID := sample_instance, ID := alice_id, Aud := ''tenant-a'',
       Role := ''supabase_admin'', Email := ''alice@a.example''\<rparr>"

definition root_user :: User where
  "root_user = zero_User\<lparr>InstanceID := sample_instance, Aud := ''tenant-b'', IsSuperAdmin := True\<rparr>"

definition sample_conn :: Connection where
  "sample_conn = \<lparr>users = [alice], audit_log_entries = [], attempted = [], failures = []\<rparr>"

definition sample_ctx :: "GoTrueClaims option \<Rightarrow> ctx_values" where
  "sample_ctx claims =
     \<lparr>getClaims = claims, getInstanceID = sample_instance, getUser = alice,
      getAdminUser = root_user, getConfig = sample_config\<rparr>"

definition url_cb_slash :: URL where
  "url_cb_slash = new_URL\<lparr>Scheme := ''https'', Host := ''a.example'', Path := ''/cb/''\<rparr>"

definition url_cb_slash_slash :: URL where
  "url_cb_slash_slash = new_URL\<lparr>Scheme := ''https'', Host := ''a.example'', Path := ''/cb//''\<rparr>"

definition url_myapp_slash :: URL where
  "url_myapp_slash = new_URL\<lparr>Scheme := ''myapp'', Host := ''callback'', Path := ''/''\<rparr>"

definition allow_config :: Configuration where
  "allow_config =
     sample_config
       \<lparr>URIAllowListMap :=
          [(''https://a.example/cb'', literal_glob ''https://a.example/cb''),
           (''myapp://callback'', literal_glob ''myapp://callback'')]\<rparr>"

definition sample_request :: "string \<Rightarrow> string \<Rightarrow> string \<Rightarrow> http_Request" where
  "sample_request header_redirect form_redirect referer =
     \<lparr>Header_Get = (\<lambda>k. if k = ''redirect_to'' then header_redirect else []),
      ParseForm = Inr (\<lambda>k. if k = ''redirect_to'' then form_redirect else []),
      Referer = referer\<rparr>"

section \<open>Properties of the block list\<close>

lemma init_value:
  "init =
     \<lparr>heap =
        [\<lparr>IP = [127, 0, 0, 0], Mask = [255, 0, 0, 0]\<rparr>,
         \<lparr>IP = [10, 0, 0, 0], Mask = [255, 0, 0, 0]\<rparr>,
         \<lparr>IP = [100, 64, 0, 0], Mask = [255, 192, 0, 0]\<rparr>,
         \<lparr>IP = [172, 16, 0, 0], Mask = [255, 240, 0, 0]\<rparr>,
         \<lparr>IP = [192, 0, 0, 0], Mask = [255, 255, 255, 0]\<rparr>,
         \<lparr>IP = [192, 168, 0, 0], Mask = [255, 255, 0, 0]\<rparr>,
         \<lparr>IP = [169, 254, 0, 0], Mask = [255, 255, 0, 0]\<rparr>,
         \<lparr>IP = [0, 0, 0, 0, 0, 0, 0, 0, 0, 0, 0, 0, 0, 0, 0, 1],
            Mask = [255, 255, 255, 255, 255, 255, 255, 255,
                    255, 255, 255, 255, 255, 255, 255, 255]\<rparr>,
         \<lparr>IP = [254, 128, 0, 0, 0, 0, 0, 0, 0, 0, 0, 0, 0, 0, 0, 0],
            Mask = [255, 192, 0, 0, 0, 0, 0, 0, 0, 0, 0, 0, 0, 0, 0, 0]\<rparr>,
         \<lparr>IP = [252, 0, 0, 0, 0, 0, 0, 0, 0, 0, 0, 0, 0, 0, 0, 0],
            Mask = [254, 0, 0, 0, 0, 0, 0, 0, 0, 0, 0, 0, 0, 0, 0, 0]\<rparr>],
      privateIPBlocks =
        [Some 0, Some 1, Some 2, Some 3, Some 4, Some 5, Some 6, Some 7, Some 8, Some 9]\<rparr>"
  by code_simp

lemma ParseIP_loopback: "ParseIP ''127.0.0.1'' = Some (IPv4 127 0 0 1)"
  by code_simp

text \<open>
  Claim C3. With the block list as \<open>init\<close> leaves it, \<open>isPrivateIP\<close> answers \<open>true\<close> for
  the addresses 127.0.0.1, 10.1.2.3, 172.16.0.5, 192.168.1.1, 169.254.169.254, ::1 and
  fe80::1, and \<open>false\<close> for 8.8.8.8. The addresses are parsed by \<open>net.ParseIP\<close>, as the
  transport does before it calls \<open>isPrivateIP\<close>; each parse succeeds and no call panics.
\<close>

theorem C3_isPrivateIP_initial_table:
  "map (\<lambda>s. map_option (isPrivateIP init) (ParseIP s))
     [''127.0.0.1'', ''10.1.2.3'', ''172.16.0.5'', ''192.168.1.1'', ''169.254.169.254'',
      ''::1'', ''fe80::1'', ''8.8.8.8'']
   = [Some (Inr True), Some (Inr True), Some (Inr True), Some (Inr True), Some (Inr True),
      Some (Inr True), Some (Inr True), Some (Inr False)]"
  by code_simp

lemma isPrivateIP_unshift:
  assumes "deref (heap g) address = Some n" and "IPNet_Contains n ip"
  shows "isPrivateIP (unshiftPrivateIPBlock address g) ip = Inr True"
  using assms by (simp add: isPrivateIP_def unshiftPrivateIPBlock_def)

lemma removeLocalhost_init:
  "\<exists>localhost g'. removeLocalhostFromPrivateIPBlock init = Inr (localhost, g')
     \<and> privateIPBlocks g' = tl (privateIPBlocks init)
     \<and> isPrivateIP g' (IPv4 127 0 0 1) = Inr False"
proof -
  have "case removeLocalhostFromPrivateIPBlock init of
          Inl e \<Rightarrow> False
        | Inr (localhost, g') \<Rightarrow>
            privateIPBlocks g' = tl (privateIPBlocks init)
            \<and> isPrivateIP g' (IPv4 127 0 0 1) = Inr False"
    by code_simp
  then show ?thesis
    by (auto split: sum.splits)
qed

text \<open>
  Claim C9. From the initial block list, \<open>removeLocalhostFromPrivateIPBlock\<close> returns
  (it does not panic) and afterwards \<open>isPrivateIP\<close> answers \<open>false\<close> for 127.0.0.1, for
  which it answered \<open>true\<close> before. After \<open>unshiftPrivateIPBlock\<close> has prepended a pointer
  to a network \<open>n\<close>, \<open>isPrivateIP\<close> answers \<open>true\<close> for every address that \<open>n\<close> contains;
  this holds in every state of the block list, the initial one included.
\<close>

theorem C9_remove_loopback_and_prepend:
  assumes "deref (heap g) address = Some n" and "IPNet_Contains n ip"
  shows "isPrivateIP init (IPv4 127 0 0 1) = Inr True
     \<and> (\<exists>localhost g'. removeLocalhostFromPrivateIPBlock init = Inr (localhost, g')
            \<and> isPrivateIP g' (IPv4 127 0 0 1) = Inr False)
     \<and> isPrivateIP (unshiftPrivateIPBlock address g) ip = Inr True"
proof -
  have "isPrivateIP init (IPv4 127 0 0 1) = Inr True"
    by code_simp
  moreover have "\<exists>localhost g'. removeLocalhostFromPrivateIPBlock init = Inr (localhost, g')
            \<and> isPrivateIP g' (IPv4 127 0 0 1) = Inr False"
    using removeLocalhost_init by blast
  moreover have "isPrivateIP (unshiftPrivateIPBlock address g) ip = Inr True"
    using assms by (rule isPrivateIP_unshift)
  ultimately show ?thesis by blast
qed

text \<open>
  The witness prepends the range 203.0.113.0/24, parsed by \<open>net.ParseCIDR\<close> on top of the
  initial store: 203.0.113.7 was not private before and is private afterwards.
\<close>

theorem C9_remove_loopback_and_prepend_witness:
  "isPrivateIP init (IPv4 203 0 113 7) = Inr False
   \<and> isPrivateIP
       (unshiftPrivateIPBlock (fst (ParseCIDR ''203.0.113.0/24'' (heap init)))
          (init\<lparr>heap := snd (ParseCIDR ''203.0.113.0/24'' (heap init))\<rparr>))
       (IPv4 203 0 113 7) = Inr True"
proof -
  let ?g = "init\<lparr>heap := snd (ParseCIDR ''203.0.113.0/24'' (heap init))\<rparr>"
  let ?a = "fst (ParseCIDR ''203.0.113.0/24'' (heap init))"
  let ?n = "\<lparr>IP = [203, 0, 113, 0], Mask = [255, 255, 255, 0]\<rparr>"
  have h1: "deref (heap ?g) ?a = Some ?n"
    by code_simp
  have h2: "IPNet_Contains ?n (IPv4 203 0 113 7)"
    by code_simp
  have h3: "isPrivateIP init (IPv4 203 0 113 7) = Inr False"
    by code_simp
  from C9_remove_loopback_and_prepend [OF h1 h2] h3 show ?thesis
    by simp
qed

section \<open>Properties of the claim and authorization resolver\<close>

text \<open>
  Claim C7. \<open>isAdmin\<close> answers \<open>true\<close> exactly when the user is a super admin, or the
  effective audience (the configured default when the caller passes the empty string)
  is the user's audience and the user holds the configured admin role. In particular the
  super-admin flag alone is enough, whatever the audience, and a user who is not a super
  admin and holds the admin role is not an admin under an audience other than its own.
\<close>

theorem C7_isAdmin:
  "(isAdmin config u aud \<longleftrightarrow>
      IsSuperAdmin u
      \<or> ((if aud = [] then JWT_Aud config else aud) = Aud u
          \<and> HasRole u (JWT_AdminGroupName config)))
   \<and> (IsSuperAdmin u \<longrightarrow> isAdmin config u aud)
   \<and> (\<not> IsSuperAdmin u \<and> HasRole u (JWT_AdminGroupName config)
        \<and> (if aud = [] then JWT_Aud config else aud) \<noteq> Aud u
        \<longrightarrow> \<not> isAdmin config u aud)"
  by (simp add: isAdmin_def Let_def)

text \<open>
  The witness: a super admin of another audience is an admin; a holder of the admin
  role is an admin under its own audience and not under another one.
\<close>

theorem C7_isAdmin_witness:
  "isAdmin sample_config root_user ''tenant-a''
   \<and> isAdmin sample_config alice ''tenant-a''
   \<and> \<not> isAdmin sample_config alice ''tenant-b''
   \<and> \<not> isAdmin sample_config alice []"
proof -
  have r: "IsSuperAdmin root_user"
    by (simp add: root_user_def)
  have a: "\<not> IsSuperAdmin alice" "HasRole alice (JWT_AdminGroupName sample_config)"
    "Aud alice = ''tenant-a''" "JWT_Aud sample_config = ''authenticated''"
    by (simp_all add: alice_def zero_User_def HasRole_def sample_config_def)
  from C7_isAdmin [of sample_config root_user "''tenant-a''"] r
  have 1: "isAdmin sample_config root_user ''tenant-a''"
    by blast
  from C7_isAdmin [of sample_config alice "''tenant-a''"] a
  have 2: "isAdmin sample_config alice ''tenant-a''"
    by simp
  from C7_isAdmin [of sample_config alice "''tenant-b''"] a
  have 3: "\<not> isAdmin sample_config alice ''tenant-b''"
    by simp
  from C7_isAdmin [of sample_config alice "[]"] a
  have 4: "\<not> isAdmin sample_config alice []"
    by simp
  from 1 2 3 4 show ?thesis
    by blast
qed

lemma SystemUserUUID_String: "uuid_String SystemUserUUID = ''00000000-0000-0000-0000-000000000000''"
  by code_simp

text \<open>
  Claim C8. \<open>getUserFromClaims\<close> fails with \<open>Invalid token\<close> when the claims are absent
  and with \<open>Invalid claim: id\<close> when the subject is empty. When the subject is the
  system-user sentinel (the nil UUID in text, or \<open>0\<close>) it returns the synthetic system
  user of the current instance and the claims' audience, whatever the connection holds:
  nothing is looked up. Otherwise the subject is parsed as a UUID: if that fails the
  result is the error \<open>Invalid user ID\<close>; if it succeeds the result is the user of the
  instance with that identifier, or the not-found error when the table has none. The
  three errors built by \<open>errors.New\<close> are the authorization failures of the claim.
\<close>

theorem C8_getUserFromClaims:
  "(getClaims ctx = None \<longrightarrow> getUserFromClaims ctx conn = Inl (ErrorsNew ''Invalid token''))
   \<and> (\<forall>claims. getClaims ctx = Some claims \<and> Subject claims = []
         \<longrightarrow> getUserFromClaims ctx conn = Inl (ErrorsNew ''Invalid claim: id''))
   \<and> (\<forall>claims. getClaims ctx = Some claims
           \<and> (Subject claims = ''00000000-0000-0000-0000-000000000000'' \<or> Subject claims = ''0'')
         \<longrightarrow> (\<forall>conn'. getUserFromClaims ctx conn'
                         = Inr (NewSystemUser (getInstanceID ctx) (Audience claims)))
             \<and> InstanceID (NewSystemUser (getInstanceID ctx) (Audience claims)) = getInstanceID ctx
             \<and> Aud (NewSystemUser (getInstanceID ctx) (Audience claims)) = Audience claims)
   \<and> (\<forall>claims. getClaims ctx = Some claims \<and> Subject claims \<noteq> []
           \<and> Subject claims \<noteq> ''00000000-0000-0000-0000-000000000000'' \<and> Subject claims \<noteq> ''0''
           \<and> uuid_FromString (Subject claims) = None
         \<longrightarrow> getUserFromClaims ctx conn = Inl (ErrorsNew ''Invalid user ID''))
   \<and> (\<forall>claims userID. getClaims ctx = Some claims \<and> Subject claims \<noteq> []
           \<and> Subject claims \<noteq> ''00000000-0000-0000-0000-000000000000'' \<and> Subject claims \<noteq> ''0''
           \<and> uuid_FromString (Subject claims) = Some userID
         \<longrightarrow> (case find (\<lambda>u. InstanceID u = getInstanceID ctx \<and> ID u = userID) (users conn) of
                None \<Rightarrow> getUserFromClaims ctx conn = Inl UserNotFoundError
              | Some u \<Rightarrow> getUserFromClaims ctx conn = Inr u))"
  by (auto simp add: getUserFromClaims_def SystemUserUUID_String SystemUserID_def Let_def
        FindUserByInstanceIDAndID_def NewSystemUser_def split: option.splits)

text \<open>
  The witness runs the five cases: no claims, an empty subject, the sentinel, a subject
  that is no UUID, the identifier of a stored user and the identifier of no user.
\<close>

theorem C8_getUserFromClaims_witness:
  "getUserFromClaims (sample_ctx None) sample_conn = Inl (ErrorsNew ''Invalid token'')
   \<and> getUserFromClaims (sample_ctx (Some \<lparr>Subject = [], Audience = ''tenant-a''\<rparr>)) sample_conn
       = Inl (ErrorsNew ''Invalid claim: id'')
   \<and> getUserFromClaims (sample_ctx (Some \<lparr>Subject = ''0'', Audience = ''tenant-a''\<rparr>)) sample_conn
       = Inr (NewSystemUser sample_instance ''tenant-a'')
   \<and> getUserFromClaims (sample_ctx (Some \<lparr>Subject = ''alice'', Audience = ''tenant-a''\<rparr>)) sample_conn
       = Inl (ErrorsNew ''Invalid user ID'')
   \<and> getUserFromClaims
         (sample_ctx (Some \<lparr>Subject = ''6ba7b810-9dad-11d1-80b4-00c04fd430c8'', Audience = ''tenant-a''\<rparr>))
         sample_conn = Inr alice
   \<and> getUserFromClaims
         (sample_ctx (Some \<lparr>Subject = ''6ba7b810-9dad-11d1-80b4-00c04fd430c9'', Audience = ''tenant-a''\<rparr>))
         sample_conn = Inl UserNotFoundError"
proof -
  have p1: "uuid_FromString ''alice'' = None"
    by code_simp
  have p2: "uuid_FromString ''6ba7b810-9dad-11d1-80b4-00c04fd430c8'' = Some alice_id"
    by code_simp
  have p3: "uuid_FromString ''6ba7b810-9dad-11d1-80b4-00c04fd430c9''
              = Some [0x6b, 0xa7, 0xb8, 0x10, 0x9d, 0xad, 0x11, 0xd1, 0x80, 0xb4, 0, 0xc0, 0x4f, 0xd4, 0x30, 0xc9]"
    by code_simp
  have f2: "find (\<lambda>u. InstanceID u = sample_instance \<and> ID u = alice_id) (users sample_conn) = Some alice"
    by (simp add: sample_conn_def alice_def)
  have f3: "find (\<lambda>u. InstanceID u = sample_instance
                \<and> ID u = [0x6b, 0xa7, 0xb8, 0x10, 0x9d, 0xad, 0x11, 0xd1, 0x80, 0xb4, 0, 0xc0, 0x4f, 0xd4, 0x30, 0xc9])
              (users sample_conn) = None"
    by (simp add: sample_conn_def alice_def alice_id_def)
  from C8_getUserFromClaims [of "sample_ctx None" sample_conn]
  have 1: "getUserFromClaims (sample_ctx None) sample_conn = Inl (ErrorsNew ''Invalid token'')"
    by (simp add: sample_ctx_def)
  from C8_getUserFromClaims [of "sample_ctx (Some \<lparr>Subject = [], Audience = ''tenant-a''\<rparr>)" sample_conn]
  have 2: "getUserFromClaims (sample_ctx (Some \<lparr>Subject = [], Audience = ''tenant-a''\<rparr>)) sample_conn
       = Inl (ErrorsNew ''Invalid claim: id'')"
    by (simp add: sample_ctx_def)
  from C8_getUserFromClaims [of "sample_ctx (Some \<lparr>Subject = ''0'', Audience = ''tenant-a''\<rparr>)" sample_conn]
  have 3: "getUserFromClaims (sample_ctx (Some \<lparr>Subject = ''0'', Audience = ''tenant-a''\<rparr>)) sample_conn
       = Inr (NewSystemUser sample_instance ''tenant-a'')"
    by (simp add: sample_ctx_def)
  from C8_getUserFromClaims [of "sample_ctx (Some \<lparr>Subject = ''alice'', Audience = ''tenant-a''\<rparr>)" sample_conn] p1
  have 4: "getUserFromClaims (sample_ctx (Some \<lparr>Subject = ''alice'', Audience = ''tenant-a''\<rparr>)) sample_conn
       = Inl (ErrorsNew ''Invalid user ID'')"
    by (simp add: sample_ctx_def)
  from C8_getUserFromClaims
         [of "sample_ctx (Some \<lparr>Subject = ''6ba7b810-9dad-11d1-80b4-00c04fd430c8'', Audience = ''tenant-a''\<rparr>)"
             sample_conn] p2 f2
  have 5: "getUserFromClaims
         (sample_ctx (Some \<lparr>Subject = ''6ba7b810-9dad-11d1-80b4-00c04fd430c8'', Audience = ''tenant-a''\<rparr>))
         sample_conn = Inr alice"
    by (simp add: sample_ctx_def)
  from C8_getUserFromClaims
         [of "sample_ctx (Some \<lparr>Subject = ''6ba7b810-9dad-11d1-80b4-00c04fd430c9'', Audience = ''tenant-a''\<rparr>)"
             sample_conn] p3 f3
  have 6: "getUserFromClaims
         (sample_ctx (Some \<lparr>Subject = ''6ba7b810-9dad-11d1-80b4-00c04fd430c9'', Audience = ''tenant-a''\<rparr>))
         sample_conn = Inl UserNotFoundError"
    by (simp add: sample_ctx_def)
  from 1 2 3 4 5 6 show ?thesis
    by blast
qed

section \<open>Properties of the redirect resolver\<close>

lemma HasSuffix_slash: "HasSuffix p ''/'' \<longleftrightarrow> p \<noteq> [] \<and> last p = CHR ''/''"
  by (cases p rule: rev_cases) (simp_all add: HasSuffix_def)

lemma TrimSuffix_slash:
  "TrimSuffix p ''/'' = (if p \<noteq> [] \<and> last p = CHR ''/'' then butlast p else p)"
  by (cases p rule: rev_cases) (simp_all add: TrimSuffix_def HasSuffix_def)

lemma TrimSuffix_twice:
  "TrimSuffix (TrimSuffix p ''/'') ''/'' = TrimSuffix p ''/'' \<longleftrightarrow> \<not> HasSuffix p ''//''"
proof (cases p rule: rev_cases)
  case Nil
  then show ?thesis by (simp add: TrimSuffix_def HasSuffix_def)
next
  case (snoc ys x)
  note p = this
  show ?thesis
  proof (cases ys rule: rev_cases)
    case Nil
    with p show ?thesis by (simp add: TrimSuffix_def HasSuffix_def)
  next
    case (snoc zs y)
    with p show ?thesis by (simp add: TrimSuffix_def HasSuffix_def)
  qed
qed

lemma URL_Path_update_eq: "(u\<lparr>Path := a\<rparr> = u\<lparr>Path := b\<rparr>) \<longleftrightarrow> a = b" for u :: URL
  by (cases u) simp

lemma trimPath_twice:
  "trimPath (trimPath parsed) = trimPath parsed
     \<longleftrightarrow> \<not> ((Scheme parsed = ''https'' \<or> Scheme parsed = ''http'') \<and> HasSuffix (Path parsed) ''//'')"
  using TrimSuffix_twice [of "Path parsed"]
  by (cases parsed) (auto simp add: trimPath_def)


text \<open>
  Claim C6, as amended. For every URL that \<open>url.Parse\<close> accepts, \<open>parseURL\<close> returns the
  parsed URL after \<open>trimPath\<close>. For the schemes \<open>https\<close> and \<open>http\<close> that step removes
  exactly one trailing slash of the path, if there is one, and changes nothing else; for
  every other scheme it changes nothing. Applying the step twice gives the same as
  applying it once exactly when the scheme is not http(s) or the path does not end in
  two slashes.
\<close>

theorem C6_parseURL_normalization:
  assumes "url_Parse u = Inr parsed"
  shows "parseURL u = Inr (trimPath parsed)
     \<and> (Scheme parsed = ''https'' \<or> Scheme parsed = ''http'' \<longrightarrow>
          trimPath parsed
            = parsed\<lparr>Path := (if Path parsed \<noteq> [] \<and> last (Path parsed) = CHR ''/''
                               then butlast (Path parsed) else Path parsed)\<rparr>)
     \<and> (Scheme parsed \<noteq> ''https'' \<and> Scheme parsed \<noteq> ''http'' \<longrightarrow> trimPath parsed = parsed)
     \<and> (trimPath (trimPath parsed) = trimPath parsed
          \<longleftrightarrow> \<not> ((Scheme parsed = ''https'' \<or> Scheme parsed = ''http'')
                  \<and> HasSuffix (Path parsed) ''//''))"
proof -
  have "parseURL u = Inr (trimPath parsed)"
    using assms by (simp add: parseURL_def)
  moreover have "Scheme parsed = ''https'' \<or> Scheme parsed = ''http'' \<longrightarrow>
          trimPath parsed
            = parsed\<lparr>Path := (if Path parsed \<noteq> [] \<and> last (Path parsed) = CHR ''/''
                               then butlast (Path parsed) else Path parsed)\<rparr>"
    by (simp add: trimPath_def TrimSuffix_slash)
  moreover have "Scheme parsed \<noteq> ''https'' \<and> Scheme parsed \<noteq> ''http'' \<longrightarrow> trimPath parsed = parsed"
    by (simp add: trimPath_def)
  ultimately show ?thesis
    using trimPath_twice [of parsed] by blast
qed

lemma url_Parse_cb_slash: "url_Parse ''https://a.example/cb/'' = Inr url_cb_slash"
  by code_simp

lemma url_Parse_myapp_slash: "url_Parse ''myapp://callback/'' = Inr url_myapp_slash"
  by code_simp

text \<open>
  The witness: \<open>https://a.example/cb/\<close> loses its trailing slash, and a second step
  changes nothing more; \<open>myapp://callback/\<close> keeps its slash.
\<close>

theorem C6_parseURL_normalization_witness:
  "parseURL ''https://a.example/cb/'' = Inr (url_cb_slash\<lparr>Path := ''/cb''\<rparr>)
   \<and> trimPath (trimPath url_cb_slash) = trimPath url_cb_slash
   \<and> parseURL ''myapp://callback/'' = Inr url_myapp_slash"
proof -
  have s1: "Scheme url_cb_slash = ''https''" "Path url_cb_slash = ''/cb/''"
    and s2: "Scheme url_myapp_slash = ''myapp''"
    by (simp_all add: url_cb_slash_def url_myapp_slash_def new_URL_def)
  have n: "\<not> HasSuffix ''/cb/'' ''//''"
    by (simp add: HasSuffix_def)
  from C6_parseURL_normalization [OF url_Parse_cb_slash]
  have a: "parseURL ''https://a.example/cb/'' = Inr (trimPath url_cb_slash)"
    and b: "Scheme url_cb_slash = ''https'' \<or> Scheme url_cb_slash = ''http'' \<longrightarrow>
          trimPath url_cb_slash
            = url_cb_slash\<lparr>Path := (if Path url_cb_slash \<noteq> [] \<and> last (Path url_cb_slash) = CHR ''/''
                               then butlast (Path url_cb_slash) else Path url_cb_slash)\<rparr>"
    and c: "trimPath (trimPath url_cb_slash) = trimPath url_cb_slash
          \<longleftrightarrow> \<not> ((Scheme url_cb_slash = ''https'' \<or> Scheme url_cb_slash = ''http'')
                  \<and> HasSuffix (Path url_cb_slash) ''//'')"
    by blast+
  from a b s1 have 1: "parseURL ''https://a.example/cb/'' = Inr (url_cb_slash\<lparr>Path := ''/cb''\<rparr>)"
    by simp
  from c s1 n have 2: "trimPath (trimPath url_cb_slash) = trimPath url_cb_slash"
    by simp
  from C6_parseURL_normalization [OF url_Parse_myapp_slash] s2
  have 3: "parseURL ''myapp://callback/'' = Inr url_myapp_slash"
    by simp
  from 1 2 3 show ?thesis
    by blast
qed

text \<open>
  The claim as stated fails: the path of \<open>https://a.example/cb//\<close> ends in two slashes,
  one normalization strips one of them and a second one strips the other, on the parsed
  URL and on the text \<open>String\<close> gives back alike.
\<close>

theorem C6_idempotence_counterexample:
  "url_Parse ''https://a.example/cb//'' = Inr url_cb_slash_slash
   \<and> trimPath url_cb_slash_slash = url_cb_slash_slash\<lparr>Path := ''/cb/''\<rparr>
   \<and> trimPath (trimPath url_cb_slash_slash) = url_cb_slash_slash\<lparr>Path := ''/cb''\<rparr>
   \<and> trimPath (trimPath url_cb_slash_slash) \<noteq> trimPath url_cb_slash_slash
   \<and> map_sum id URL_String (parseURL ''https://a.example/cb//'') = Inr ''https://a.example/cb/''
   \<and> map_sum id URL_String (parseURL ''https://a.example/cb/'') = Inr ''https://a.example/cb''"
  by code_simp

lemma HasPrefix_iff: "HasPrefix s pre \<longleftrightarrow> (\<exists>r. s = pre @ r)"
proof
  assume "HasPrefix s pre"
  then have "s = pre @ drop (length pre) s"
    by (metis HasPrefix_def append_take_drop_id)
  then show "\<exists>r. s = pre @ r" ..
next
  assume "\<exists>r. s = pre @ r"
  then show "HasPrefix s pre" by (auto simp add: HasPrefix_def)
qed

lemma HasPrefix_https_http: "HasPrefix uri ''https'' \<Longrightarrow> HasPrefix uri ''http''"
  by (auto simp add: HasPrefix_iff)

lemma allowList_loop_iff:
  "allowList_loop al matchURL redirectURL
     \<longleftrightarrow> (\<exists>(uri, g) \<in> set al. if HasPrefix uri ''http'' then g matchURL else redirectURL = uri)"
  by (induction al matchURL redirectURL rule: allowList_loop.induct)
     (auto dest: HasPrefix_https_http)

lemma isRedirectURLValid_unparseable:
  assumes "redirectURL \<noteq> []" and "parseURL redirectURL = Inl err"
  shows "isRedirectURLValid config redirectURL = Inl NilPointerDereference"
  using assms by (simp add: isRedirectURLValid_def Let_def)

text \<open>
  For a candidate that \<open>parseURL\<close> accepts, \<open>isRedirectURLValid\<close> returns, and it returns
  \<open>true\<close> exactly when the candidate is not empty and either the site URL parses and has
  the candidate's host name, or some entry of the allow list accepts it: an entry whose
  URI begins with \<open>http\<close> by its glob on the text of the normalized candidate, any other
  entry by equality with the candidate as given.
\<close>

theorem isRedirectURLValid_parseable:
  assumes "parseURL redirectURL = Inr ref"
  shows "isRedirectURLValid config redirectURL
     = Inr (redirectURL \<noteq> []
            \<and> ((\<exists>b. parseURL (SiteURL config) = Inr b \<and> URL_Hostname b = URL_Hostname ref)
               \<or> (\<exists>(uri, g) \<in> set (URIAllowListMap config).
                     if HasPrefix uri ''http'' then g (URL_String ref) else redirectURL = uri)))"
  using assms
  by (auto simp add: isRedirectURLValid_def Let_def allowList_loop_iff split: sum.splits)

lemma parseURL_examples:
  "parseURL ''https://a.example/cb'' = Inr (url_cb_slash\<lparr>Path := ''/cb''\<rparr>)"
  "parseURL ''https://a.example/cb/'' = Inr (url_cb_slash\<lparr>Path := ''/cb''\<rparr>)"
  "parseURL ''myapp://callback'' = Inr (url_myapp_slash\<lparr>Path := []\<rparr>)"
  "parseURL ''myapp://callback/'' = Inr url_myapp_slash"
  "parseURL ''https://trusted.example'' = Inr (new_URL\<lparr>Scheme := ''https'', Host := ''trusted.example''\<rparr>)"
  "parseURL ''https://trusted.example/page''
     = Inr (new_URL\<lparr>Scheme := ''https'', Host := ''trusted.example'', Path := ''/page''\<rparr>)"
  by code_simp+

text \<open>
  The examples of the allow list: with the entries \<open>https://a.example/cb\<close> and
  \<open>myapp://callback\<close> (and a site URL of another host), \<open>https://a.example/cb\<close>,
  \<open>https://a.example/cb/\<close> and \<open>myapp://callback\<close> are valid and \<open>myapp://callback/\<close> is
  not.
\<close>

theorem isRedirectURLValid_parseable_witness:
  "isRedirectURLValid allow_config ''https://a.example/cb'' = Inr True
   \<and> isRedirectURLValid allow_config ''https://a.example/cb/'' = Inr True
   \<and> isRedirectURLValid allow_config ''myapp://callback'' = Inr True
   \<and> isRedirectURLValid allow_config ''myapp://callback/'' = Inr False
   \<and> isRedirectURLValid allow_config ''https://trusted.example/page'' = Inr True"
proof -
  have c: "SiteURL allow_config = ''https://trusted.example''"
    "URIAllowListMap allow_config
       = [(''https://a.example/cb'', literal_glob ''https://a.example/cb''),
          (''myapp://callback'', literal_glob ''myapp://callback'')]"
    by (simp_all add: allow_config_def sample_config_def)
  have h: "URL_Hostname (new_URL\<lparr>Scheme := ''https'', Host := ''trusted.example''\<rparr>) = ''trusted.example''"
    "URL_Hostname (url_cb_slash\<lparr>Path := ''/cb''\<rparr>) = ''a.example''"
    "URL_Hostname (url_myapp_slash\<lparr>Path := []\<rparr>) = ''callback''"
    "URL_Hostname url_myapp_slash = ''callback''"
    "URL_Hostname (new_URL\<lparr>Scheme := ''https'', Host := ''trusted.example'', Path := ''/page''\<rparr>)
       = ''trusted.example''"
    by code_simp+
  have s: "URL_String (url_cb_slash\<lparr>Path := ''/cb''\<rparr>) = ''https://a.example/cb''"
    "URL_String (url_myapp_slash\<lparr>Path := []\<rparr>) = ''myapp://callback''"
    "URL_String url_myapp_slash = ''myapp://callback/''"
    by code_simp+
  have x: "HasPrefix ''https://a.example/cb'' ''http''" "\<not> HasPrefix ''myapp://callback'' ''http''"
    by (simp_all add: HasPrefix_def)
  have 1: "isRedirectURLValid allow_config ''https://a.example/cb'' = Inr True"
    using isRedirectURLValid_parseable [OF parseURL_examples(1), of allow_config]
    by (simp add: c h s x parseURL_examples literal_glob_def)
  have 2: "isRedirectURLValid allow_config ''https://a.example/cb/'' = Inr True"
    using isRedirectURLValid_parseable [OF parseURL_examples(2), of allow_config]
    by (simp add: c h s x parseURL_examples literal_glob_def)
  have 3: "isRedirectURLValid allow_config ''myapp://callback'' = Inr True"
    using isRedirectURLValid_parseable [OF parseURL_examples(3), of allow_config]
    by (simp add: c h s x parseURL_examples literal_glob_def)
  have 4: "isRedirectURLValid allow_config ''myapp://callback/'' = Inr False"
    using isRedirectURLValid_parseable [OF parseURL_examples(4), of allow_config]
    by (simp add: c h s x parseURL_examples literal_glob_def)
  have 5: "isRedirectURLValid allow_config ''https://trusted.example/page'' = Inr True"
    using isRedirectURLValid_parseable [OF parseURL_examples(6), of allow_config]
    by (simp add: c h s x parseURL_examples literal_glob_def)
  from 1 2 3 4 5 show ?thesis
    by blast
qed

lemma parseURL_bad_escape:
  "parseURL ''https://a.example/%zz'' = Inl (EscapeError ''%zz'')"
  "parseURL ''myapp://callback/%zz'' = Inl (EscapeError ''%zz'')"
  "parseURL ''https://trusted.example/%zz'' = Inl (EscapeError ''%zz'')"
  by code_simp+

text \<open>
  Claim C10 fails on the code. \<open>https://a.example/%zz\<close> holds an invalid percent escape,
  \<open>url.Parse\<close> rejects it, \<open>parseURL\<close> returns a \<open>nil\<close> URL with the error, and
  \<open>isRedirectURLValid\<close> calls \<open>String\<close> on that \<open>nil\<close> URL before it looks at the error:
  whatever the configuration, the call panics instead of returning a boolean.
\<close>

theorem C10_unparseable_candidate_panics:
  "isRedirectURLValid config ''https://a.example/%zz'' = Inl NilPointerDereference"
  by (rule isRedirectURLValid_unparseable [OF _ parseURL_bad_escape(1)]) simp

text \<open>
  Claim C2 fails on the code, by the same defect. The allow list holds the entry
  \<open>myapp://callback/%zz\<close>, which does not begin with \<open>http\<close>, and the candidate is that
  very text: by the claim it is valid, and the call panics.
\<close>

theorem C2_exact_match_of_unparseable_candidate_panics:
  "isRedirectURLValid
     (sample_config\<lparr>URIAllowListMap :=
        [(''myapp://callback/%zz'', literal_glob ''myapp://callback/%zz'')]\<rparr>)
     ''myapp://callback/%zz''
   = Inl NilPointerDereference"
  by (rule isRedirectURLValid_unparseable [OF _ parseURL_bad_escape(2)]) simp

text \<open>
  Claim C5 fails on the code, by the same defect. A request whose \<open>redirect_to\<close> header
  is \<open>https://trusted.example/%zz\<close> makes \<open>getReferrer\<close> panic, although its referrer is
  valid and the site URL is there to fall back on; so does a request with no redirect
  field and that text as its referrer.
\<close>

theorem C5_getReferrer_panics:
  "getReferrer sample_config
     (sample_request ''https://trusted.example/%zz'' [] ''https://trusted.example/page'')
   = Inl NilPointerDereference
   \<and> getReferrer sample_config (sample_request [] [] ''https://trusted.example/%zz'')
   = Inl NilPointerDereference"
proof -
  have p: "isRedirectURLValid sample_config ''https://trusted.example/%zz'' = Inl NilPointerDereference"
    by (rule isRedirectURLValid_unparseable [OF _ parseURL_bad_escape(3)]) simp
  have e: "isRedirectURLValid sample_config [] = Inr False"
    by (simp add: isRedirectURLValid_def)
  show ?thesis
    by (simp add: getReferrer_def getRedirectTo_def sample_request_def p e)
qed

text \<open>
  Where neither the redirect field nor the referrer is a text that \<open>url.Parse\<close> rejects,
  \<open>getReferrer\<close> returns: the redirect field (the header, or the form field when the
  header is empty and the form parses) if it is valid, else the referrer if it is valid,
  else the site URL.
\<close>

theorem getReferrer_order:
  assumes "getRedirectTo r = [] \<or> (\<exists>u. parseURL (getRedirectTo r) = Inr u)"
    and "Referer r = [] \<or> (\<exists>u. parseURL (Referer r) = Inr u)"
  shows "getReferrer config r
     = Inr (if isRedirectURLValid config (getRedirectTo r) = Inr True then getRedirectTo r
            else if isRedirectURLValid config (Referer r) = Inr True then Referer r
            else SiteURL config)"
proof -
  have 1: "\<exists>b. isRedirectURLValid config (getRedirectTo r) = Inr b"
    using assms(1) isRedirectURLValid_parseable by (auto simp add: isRedirectURLValid_def)
  have 2: "\<exists>b. isRedirectURLValid config (Referer r) = Inr b"
    using assms(2) isRedirectURLValid_parseable by (auto simp add: isRedirectURLValid_def)
  from 1 2 show ?thesis
    by (auto simp add: getReferrer_def Let_def split: sum.splits bool.splits)
qed

text \<open>
  The examples: with no redirect field and the referrer \<open>https://trusted.example/page\<close>
  the result is the referrer; with neither, or with both on a foreign host, it is the
  site URL \<open>https://trusted.example\<close>; a valid form field is used when the header is
  empty.
\<close>

theorem getReferrer_order_witness:
  "getReferrer sample_config (sample_request [] [] ''https://trusted.example/page'')
     = Inr ''https://trusted.example/page''
   \<and> getReferrer sample_config (sample_request [] [] []) = Inr ''https://trusted.example''
   \<and> getReferrer sample_config (sample_request ''myapp://callback'' [] ''https://a.example/cb'')
       = Inr ''https://trusted.example''
   \<and> getReferrer sample_config (sample_request [] ''https://trusted.example/page'' [])
       = Inr ''https://trusted.example/page''"
proof -
  have v: "isRedirectURLValid sample_config [] = Inr False"
    "isRedirectURLValid sample_config ''https://trusted.example/page'' = Inr True"
    "isRedirectURLValid sample_config ''myapp://callback'' = Inr False"
    "isRedirectURLValid sample_config ''https://a.example/cb'' = Inr False"
    by code_simp+
  have g: "getRedirectTo (sample_request [] [] ''https://trusted.example/page'') = []"
    "getRedirectTo (sample_request [] [] []) = []"
    "getRedirectTo (sample_request ''myapp://callback'' [] ''https://a.example/cb'') = ''myapp://callback''"
    "getRedirectTo (sample_request [] ''https://trusted.example/page'' []) = ''https://trusted.example/page''"
    by (simp_all add: getRedirectTo_def sample_request_def)
  have r: "Referer (sample_request [] [] ''https://trusted.example/page'') = ''https://trusted.example/page''"
    "Referer (sample_request [] [] []) = []"
    "Referer (sample_request ''myapp://callback'' [] ''https://a.example/cb'') = ''https://a.example/cb''"
    "Referer (sample_request [] ''https://trusted.example/page'' []) = []"
    "SiteURL sample_config = ''https://trusted.example''"
    by (simp_all add: sample_request_def sample_config_def)
  have 1: "getReferrer sample_config (sample_request [] [] ''https://trusted.example/page'')
     = Inr ''https://trusted.example/page''"
    using getReferrer_order [of "sample_request [] [] ''https://trusted.example/page''" sample_config]
    by (simp add: g r v parseURL_examples)
  have 2: "getReferrer sample_config (sample_request [] [] []) = Inr ''https://trusted.example''"
    using getReferrer_order [of "sample_request [] [] []" sample_config]
    by (simp add: g r v)
  have 3: "getReferrer sample_config (sample_request ''myapp://callback'' [] ''https://a.example/cb'')
       = Inr ''https://trusted.example''"
    using getReferrer_order [of "sample_request ''myapp://callback'' [] ''https://a.example/cb''" sample_config]
    by (simp add: g r v parseURL_examples)
  have 4: "getReferrer sample_config (sample_request [] ''https://trusted.example/page'' [])
       = Inr ''https://trusted.example/page''"
    using getReferrer_order [of "sample_request [] ''https://trusted.example/page'' []" sample_config]
    by (simp add: g r v parseURL_examples)
  from 1 2 3 4 show ?thesis
    by blast
qed

end
